theory Spec2Isabelle
  imports Complex_Main
begin

section \<open>Adaptive scoring and weight-learning engine of the crypto scanner\<close>

text \<open>
  The development follows the later of the two revisions held in
  \<^verbatim>\<open>src/crypto_scanner_server.js\<close> (the one that defines \<^verbatim>\<open>runWithConcurrency\<close>
  and \<^verbatim>\<open>processSymbolForScan\<close>); where the earlier revision differs and a statement
  depends on it, the earlier function is given as well under a name ending in
  \<^verbatim>\<open>_v1\<close>.

  JavaScript numbers are modelled as mathematical reals: \<^verbatim>\<open>Math.round\<close> is
  \<open>\<lfloor>x + 1/2\<rfloor>\<close>, \<^verbatim>\<open>Math.sign\<close> is \<open>sgn\<close>, and a division whose divisor may be
  zero is guarded by a hypothesis wherever a statement depends on it.
\<close>

subsection \<open>Configuration constants\<close>

definition LOOKBACK_PERIOD :: nat where
  "LOOKBACK_PERIOD = 200"

definition LEARNING_TRADE_COUNT :: nat where
  "LEARNING_TRADE_COUNT = 50"

definition LOOKAHEAD_CANDLES :: nat where
  "LOOKAHEAD_CANDLES = 4"

definition CONCURRENCY_LIMIT :: nat where
  "CONCURRENCY_LIMIT = 10"

definition OBI_WEIGHT :: real where
  "OBI_WEIGHT = 15"

definition LEARNING_RATE :: real where
  "LEARNING_RATE = 1 / 2"

definition TARGET_TOTAL_WEIGHT :: real where
  "TARGET_TOTAL_WEIGHT = 100 - OBI_WEIGHT"

subsection \<open>Data model\<close>

text \<open>One formatted kline, as built by \<^verbatim>\<open>fetchBinanceData\<close>.\<close>

record candle =
  time :: int
  c_open :: real
  high :: real
  low :: real
  close :: real
  volume :: real

text \<open>
  The weight object \<^verbatim>\<open>{OBV, STOCH, OI_PROXY, MACD}\<close>. The object
  \<^verbatim>\<open>componentScores\<close> of a prediction has the same four keys and \<^verbatim>\<open>OBI\<close>.
\<close>

record weights =
  OBV :: real
  STOCH :: real
  OI_PROXY :: real
  MACD :: real

record component_scores = weights +
  OBI :: real

definition CURRENT_WEIGHTS :: weights where
  "CURRENT_WEIGHTS = \<lparr>OBV = 30, STOCH = 25, OI_PROXY = 20, MACD = 10\<rparr>"

text \<open>
  The keys of the weight object, in the order \<^verbatim>\<open>Object.keys\<close> lists them for
  the hard-coded default.
\<close>

datatype indicator_key = K_OBV | K_STOCH | K_OI_PROXY | K_MACD

definition indicatorKeys :: "indicator_key list" where
  "indicatorKeys = [K_OBV, K_STOCH, K_OI_PROXY, K_MACD]"

fun get_key :: "indicator_key \<Rightarrow> 'a weights_scheme \<Rightarrow> real" where
  "get_key K_OBV w = OBV w"
| "get_key K_STOCH w = STOCH w"
| "get_key K_OI_PROXY w = OI_PROXY w"
| "get_key K_MACD w = MACD w"

fun set_key :: "indicator_key \<Rightarrow> real \<Rightarrow> weights \<Rightarrow> weights" where
  "set_key K_OBV v w = w\<lparr>OBV := v\<rparr>"
| "set_key K_STOCH v w = w\<lparr>STOCH := v\<rparr>"
| "set_key K_OI_PROXY v w = w\<lparr>OI_PROXY := v\<rparr>"
| "set_key K_MACD v w = w\<lparr>MACD := v\<rparr>"

text \<open>\<^verbatim>\<open>Object.values(w).reduce((a, b) => a + b, 0)\<close>\<close>

definition values_total :: "weights \<Rightarrow> real" where
  "values_total w = 0 + OBV w + STOCH w + OI_PROXY w + MACD w"

datatype direction = UP | DOWN | FLAT

record prediction_result =
  prediction :: direction
  confidence :: real
  score :: real
  componentScores :: component_scores

text \<open>\<^verbatim>\<open>Math.round\<close>: the nearest integer, a tie going up.\<close>

definition Math_round :: "real \<Rightarrow> real" where
  "Math_round x = of_int \<lfloor>x + 1 / 2\<rfloor>"

subsection \<open>Helpers for JavaScript arrays and numbers\<close>

text \<open>\<^verbatim>\<open>xs[i]\<close>: the element, or \<^verbatim>\<open>undefined\<close> (here \<open>None\<close>) past the end.\<close>

definition js_index :: "'a list \<Rightarrow> nat \<Rightarrow> 'a option" where
  "js_index xs i = (if i < length xs then Some (xs ! i) else None)"

text \<open>\<^verbatim>\<open>xs.slice(a, b)\<close> for \<open>0 \<le> a\<close>.\<close>

definition slice :: "'a list \<Rightarrow> nat \<Rightarrow> nat \<Rightarrow> 'a list" where
  "slice xs a b = take (b - a) (drop a xs)"

text \<open>\<^verbatim>\<open>xs.reduce((a, b) => a + b, 0)\<close>\<close>

definition reduce_sum :: "real list \<Rightarrow> real" where
  "reduce_sum xs = foldl (+) 0 xs"

text \<open>
  \<^verbatim>\<open>Math.min(...xs)\<close> and \<^verbatim>\<open>Math.max(...xs)\<close>. Every call in the source passes a
  window of at least one element; the value for the empty list (an infinity in
  JavaScript) is never read.
\<close>

fun Math_min :: "real list \<Rightarrow> real" where
  "Math_min [] = 0"
| "Math_min (x # xs) = foldl min x xs"

fun Math_max :: "real list \<Rightarrow> real" where
  "Math_max [] = 0"
| "Math_max (x # xs) = foldl max x xs"

text \<open>
  \<^verbatim>\<open>x.toFixed(d)\<close>, read back as the number its decimal string denotes: the nearest
  multiple of \<open>10\<^sup>-\<^sup>d\<close>, a tie going away from zero.
\<close>

definition toFixed :: "nat \<Rightarrow> real \<Rightarrow> real" where
  "toFixed d x =
     (if x < 0 then - (of_int \<lfloor>- x * 10 ^ d + 1 / 2\<rfloor> / 10 ^ d)
      else of_int \<lfloor>x * 10 ^ d + 1 / 2\<rfloor> / 10 ^ d)"

subsection \<open>Indicator library\<close>

text \<open>
  \<^verbatim>\<open>calculate_ema\<close>: \<^verbatim>\<open>current_ema\<close> is \<^verbatim>\<open>null\<close> (here \<open>None\<close>) until the first
  element has been seen.
\<close>

fun ema_loop :: "real list \<Rightarrow> real \<Rightarrow> real option \<Rightarrow> nat list \<Rightarrow> real list" where
  "ema_loop xs alpha current_ema [] = []"
| "ema_loop xs alpha current_ema (i # rest) =
     (let c = (case current_ema of
                 None \<Rightarrow> reduce_sum (slice xs 0 (i + 1)) / real (i + 1)
               | Some e \<Rightarrow> alpha * (xs ! i) + (1 - alpha) * e)
      in c # ema_loop xs alpha (Some c) rest)"

definition calculate_ema :: "real list \<Rightarrow> nat \<Rightarrow> real list" where
  "calculate_ema xs window =
     ema_loop xs (2 / (real window + 1)) None [0..<length xs]"

text \<open>
  \<^verbatim>\<open>calculate_macd\<close> with its defaults \<open>fast = 12\<close>, \<open>slow = 26\<close>, \<open>signal = 9\<close>;
  the result is the array \<^verbatim>\<open>macd_hist\<close>. The signal line of a non-empty prefix is
  non-empty, and \<^verbatim>\<open>x || 0\<close> is \<open>x\<close> for every number \<open>x\<close>.
\<close>

definition calculate_macd :: "candle list \<Rightarrow> real list" where
  "calculate_macd data =
     (let closes = map close data;
          ema_fast = calculate_ema closes 12;
          ema_slow = calculate_ema closes 26;
          macd_line = map (\<lambda>i. ema_fast ! i - ema_slow ! i) [0..<length ema_fast]
      in map (\<lambda>i. let signal_line = calculate_ema (slice macd_line 0 (i + 1)) 9
                   in macd_line ! i - (case signal_line of [] \<Rightarrow> 0 | _ \<Rightarrow> last signal_line))
             [0..<length macd_line])"

function obv_loop :: "candle list \<Rightarrow> nat \<Rightarrow> real list \<Rightarrow> real list" where
  "obv_loop data i obv =
     (if i < length data then
        (let prev_obv = obv ! (i - 1)
         in obv_loop data (i + 1)
              (obv[i := (if close (data ! i) > close (data ! (i - 1))
                           then prev_obv + volume (data ! i)
                         else if close (data ! i) < close (data ! (i - 1))
                           then prev_obv - volume (data ! i)
                         else prev_obv)]))
      else obv)"
  by pat_completeness auto
termination
  by (relation "measure (\<lambda>(data, i, obv). length data - i)") auto

declare obv_loop.simps [simp del]

definition calculate_obv :: "candle list \<Rightarrow> real list" where
  "calculate_obv data =
     (let obv = replicate (length data) 0
      in if length data = 0 then obv
         else obv_loop data 1 (obv[0 := volume (data ! 0)]))"

text \<open>\<^verbatim>\<open>calculate_stochastic\<close>; the loop starts at \<open>k_window - 1\<close>.\<close>

function stochastic_loop :: "candle list \<Rightarrow> nat \<Rightarrow> nat \<Rightarrow> real list \<Rightarrow> real list" where
  "stochastic_loop data k_window i k =
     (if i < length data then
        (let windowData = slice data (i + 1 - k_window) (i + 1);
             lowestLow = Math_min (map low windowData);
             highestHigh = Math_max (map high windowData);
             currentClose = close (data ! i);
             range = highestHigh - lowestLow
         in stochastic_loop data k_window (i + 1)
              (if range > 1 / 10 ^ 6
               then k[i := 100 * (currentClose - lowestLow) / range] else k))
      else k)"
  by pat_completeness auto
termination
  by (relation "measure (\<lambda>(data, k_window, i, k). length data - i)") auto

declare stochastic_loop.simps [simp del]

definition calculate_stochastic :: "candle list \<Rightarrow> real list" where
  "calculate_stochastic data =
     stochastic_loop data 14 (14 - 1) (replicate (length data) 50)"

text \<open>\<^verbatim>\<open>calculate_atr\<close>\<close>

definition true_range :: "candle \<Rightarrow> candle \<Rightarrow> real" where
  "true_range prev cur =
     (let high_low = high cur - low cur;
          high_prevClose = \<bar>high cur - close prev\<bar>;
          low_prevClose = \<bar>low cur - close prev\<bar>
      in max (max high_low high_prevClose) low_prevClose)"

definition trueRanges :: "candle list \<Rightarrow> real list" where
  "trueRanges data = map (\<lambda>i. true_range (data ! (i - 1)) (data ! i)) [1..<length data]"

fun atr_loop :: "real \<Rightarrow> real \<Rightarrow> real list \<Rightarrow> real list" where
  "atr_loop window current_atr [] = []"
| "atr_loop window current_atr (t # rest) =
     (let c = ((current_atr * (window - 1)) + t) / window
      in c # atr_loop window c rest)"

definition atr_values_of :: "real list \<Rightarrow> nat \<Rightarrow> real list" where
  "atr_values_of trs window =
     (if length trs > 0 then
        (let initial_sum = reduce_sum (slice trs 0 window);
             current_atr = initial_sum / real window
         in current_atr # atr_loop (real window) current_atr (drop window trs))
      else [])"

definition calculate_atr :: "candle list \<Rightarrow> nat \<Rightarrow> real list" where
  "calculate_atr data window =
     (let trs = trueRanges data;
          atr = atr_values_of trs window
      in replicate (length data - length trs) (case atr of [] \<Rightarrow> 0 | a # _ \<Rightarrow> a) @ atr)"

definition calculate_volume_pressure :: "candle \<Rightarrow> real" where
  "calculate_volume_pressure lastCandle =
     (let range = high lastCandle - low lastCandle
      in if range < 1 / 10 ^ 6 then 0
         else (let close_position = (close lastCandle - low lastCandle) / range;
                   sentiment = (close_position * 2) - 1
               in sentiment * 100))"

text \<open>
  An order book as parsed from the depth endpoint: each side is a list of
  \<open>(price, quantity)\<close> levels with the quantity already read by \<^verbatim>\<open>parseFloat\<close>;
  a missing side and a missing book are \<open>None\<close>.
\<close>

type_synonym level = "real \<times> real"

record order_book =
  bids :: "level list option"
  asks :: "level list option"

fun weighted_reduce :: "real \<Rightarrow> level list \<Rightarrow> nat \<Rightarrow> real \<Rightarrow> real" where
  "weighted_reduce limit [] index acc = acc"
| "weighted_reduce limit ((price, qty) # rest) index acc =
     weighted_reduce limit rest (index + 1) (acc + (qty * (limit - real index)))"

definition calculate_depth_weighted_imbalance :: "order_book option \<Rightarrow> real" where
  "calculate_depth_weighted_imbalance book =
     (case book of
        None \<Rightarrow> 0
      | Some b \<Rightarrow>
          (case bids b of
             None \<Rightarrow> 0
           | Some bs \<Rightarrow>
               (case asks b of
                  None \<Rightarrow> 0
                | Some as \<Rightarrow>
                    (let limit = real (length bs);
                         totalWeightedBidVolume = weighted_reduce limit bs 0 0;
                         totalWeightedAskVolume = weighted_reduce limit as 0 0;
                         totalWeightedVolume = totalWeightedBidVolume + totalWeightedAskVolume
                     in if totalWeightedVolume < 1 / 10 ^ 6 then 50
                        else (totalWeightedBidVolume / totalWeightedVolume) * 100))))"

subsection \<open>Prediction engine\<close>

definition generatePrediction ::
  "real \<Rightarrow> real \<Rightarrow> real \<Rightarrow> real \<Rightarrow> real \<Rightarrow> weights \<Rightarrow> prediction_result" where
  "generatePrediction obvPctChange stochK macdHist volumePressure obiPct w =
    (let obvScore = (if obvPctChange > 1 then OBV w
                     else if obvPctChange < - 1 then - OBV w else 0);
         stochScore = (if stochK < 25 then STOCH w
                       else if stochK > 75 then - STOCH w else 0);
         oiScore = (if volumePressure > 50 then OI_PROXY w
                    else if volumePressure < - 50 then - OI_PROXY w
                    else if volumePressure > 10 then OI_PROXY w / 2
                    else if volumePressure < - 10 then - OI_PROXY w / 2 else 0);
         macdScore = (if macdHist > 0 then MACD w
                      else if macdHist < 0 then - MACD w else 0);
         obiScore = (if obiPct > 65 then OBI_WEIGHT
                     else if obiPct < 35 then - OBI_WEIGHT
                     else if obiPct > 55 then OBI_WEIGHT / 2
                     else if obiPct < 45 then - OBI_WEIGHT / 2 else 0);
         sc = 0 + obvScore + stochScore + oiScore + macdScore + obiScore
     in \<lparr>prediction = (if sc \<ge> 0 then UP else DOWN),
         confidence = min 100 \<bar>sc\<bar>,
         score = sc,
         componentScores = \<lparr>OBV = obvScore, STOCH = stochScore, OI_PROXY = oiScore,
                            MACD = macdScore, OBI = obiScore\<rparr>\<rparr>)"

subsection \<open>Adaptive weight learner\<close>

text \<open>
  The accuracy string of a learning pass: \<^verbatim>\<open>'N/A'\<close>, or the decimal string of a
  percentage, kept as the number it denotes.
\<close>

datatype accuracy = NA | Pct real

record learning_outcome =
  newWeights :: weights
  accuracy :: accuracy

text \<open>
  The percentage change over the OBV window. The window is never empty where the
  source reads it: the learner has \<open>predictIndex \<ge> 26\<close> and the scan has
  \<open>lastIndex \<ge> 197\<close>.
\<close>

definition obv_pct_change_of :: "real list \<Rightarrow> real" where
  "obv_pct_change_of obv_window =
     (let initial_obv = obv_window ! 0;
          final_obv = obv_window ! (length obv_window - 1)
      in ((final_obv - initial_obv)
            / \<bar>if initial_obv = 0 then 1 / 10 ^ 6 else initial_obv\<bar>) * 100)"

text \<open>The prediction of one trial, from the candles up to \<open>predictIndex\<close> only.\<close>

definition trial_prediction :: "candle list \<Rightarrow> nat \<Rightarrow> weights \<Rightarrow> prediction_result" where
  "trial_prediction data predictIndex adjustedWeights =
     (let predictCandle = data ! predictIndex;
          subData = slice data 0 (predictIndex + 1);
          obv_values = calculate_obv subData;
          macd_hist = calculate_macd subData;
          stoch_k = calculate_stochastic subData ! predictIndex;
          volume_pressure = calculate_volume_pressure predictCandle;
          macd_hist_val = macd_hist ! predictIndex;
          obv_window_start = predictIndex - 20;
          obv_window = slice obv_values obv_window_start predictIndex;
          obv_pct_change = obv_pct_change_of obv_window;
          NEUTRAL_OBI = 50
      in generatePrediction obv_pct_change stoch_k macd_hist_val volume_pressure
           NEUTRAL_OBI adjustedWeights)"

definition actualDirection_of :: "real \<Rightarrow> direction" where
  "actualDirection_of actualChange =
     (if actualChange > 0 then UP else if actualChange < 0 then DOWN else FLAT)"

text \<open>The reward and the penalty loop over the keys (later revision).\<close>

fun reward :: "prediction_result \<Rightarrow> indicator_key list \<Rightarrow> weights \<Rightarrow> weights" where
  "reward p [] w = w"
| "reward p (key # rest) w =
     reward p rest
       (if sgn (get_key key (componentScores p)) = sgn (score p)
        then set_key key (min 100 (get_key key w + LEARNING_RATE)) w else w)"

fun penalty :: "prediction_result \<Rightarrow> indicator_key list \<Rightarrow> weights \<Rightarrow> weights" where
  "penalty p [] w = w"
| "penalty p (key # rest) w =
     penalty p rest
       (if sgn (get_key key (componentScores p)) = sgn (score p)
        then set_key key (max 5 (get_key key w - LEARNING_RATE)) w else w)"

definition adjust_weights :: "prediction_result \<Rightarrow> direction \<Rightarrow> weights \<Rightarrow> weights" where
  "adjust_weights p actualDirection w =
     (if prediction p = actualDirection then reward p indicatorKeys w
      else penalty p indicatorKeys w)"

text \<open>The same two loops in the earlier revision.\<close>

fun reward_v1 :: "prediction_result \<Rightarrow> indicator_key list \<Rightarrow> weights \<Rightarrow> weights" where
  "reward_v1 p [] w = w"
| "reward_v1 p (key # rest) w =
     reward_v1 p rest
       (if get_key key (componentScores p) * score p > 0
        then set_key key (min 100 (get_key key w + LEARNING_RATE)) w else w)"

fun penalty_v1 ::
  "prediction_result \<Rightarrow> direction \<Rightarrow> indicator_key list \<Rightarrow> weights \<Rightarrow> weights" where
  "penalty_v1 p actualDirection [] w = w"
| "penalty_v1 p actualDirection (key # rest) w =
     penalty_v1 p actualDirection rest
       (if prediction p = UP \<and> actualDirection = DOWN then
          (if get_key key (componentScores p) > 0
           then set_key key (max 5 (get_key key w - LEARNING_RATE)) w else w)
        else if prediction p = DOWN \<and> actualDirection = UP then
          (if get_key key (componentScores p) < 0
           then set_key key (max 5 (get_key key w - LEARNING_RATE)) w else w)
        else w)"

definition adjust_weights_v1 :: "prediction_result \<Rightarrow> direction \<Rightarrow> weights \<Rightarrow> weights" where
  "adjust_weights_v1 p actualDirection w =
     (if prediction p = actualDirection then reward_v1 p indicatorKeys w
      else penalty_v1 p actualDirection indicatorKeys w)"

text \<open>
  The trial loop. The result is \<open>(adjustedWeights, hits, totalTrades)\<close>; leaving the
  loop by \<^verbatim>\<open>break\<close> sets \<open>totalTrades\<close> to the current \<open>i\<close>.
\<close>

function learn_loop ::
  "(prediction_result \<Rightarrow> direction \<Rightarrow> weights \<Rightarrow> weights) \<Rightarrow> candle list \<Rightarrow> nat
     \<Rightarrow> weights \<Rightarrow> nat \<Rightarrow> weights \<times> nat \<times> nat" where
  "learn_loop adjust data i adjustedWeights hits =
     (if i < LEARNING_TRADE_COUNT then
        (let predictIndex = int (length data) - int LOOKAHEAD_CANDLES - 1 - int i;
             outcomeIndex = int (length data) - 1 - int i
         in if predictIndex < 26 \<or> outcomeIndex \<ge> int (length data)
            then (adjustedWeights, hits, i)
            else
              (let predictCandle = data ! nat predictIndex;
                   outcomeCandle = data ! nat outcomeIndex;
                   p = trial_prediction data (nat predictIndex) adjustedWeights;
                   actualChange = close outcomeCandle - close predictCandle;
                   actualDirection = actualDirection_of actualChange;
                   isHit = (prediction p = actualDirection)
               in learn_loop adjust data (i + 1)
                    (adjust p actualDirection adjustedWeights)
                    (if isHit then hits + 1 else hits)))
      else (adjustedWeights, hits, LEARNING_TRADE_COUNT))"
  by pat_completeness auto
termination
  by (relation "measure (\<lambda>(adjust, data, i, w, hits). LEARNING_TRADE_COUNT - i)") auto

declare learn_loop.simps [simp del]

text \<open>Assigning \<open>f\<close> of the old value to every key, and the remainder correction.\<close>

definition map_keys :: "(real \<Rightarrow> real) \<Rightarrow> weights \<Rightarrow> weights" where
  "map_keys f w = fold (\<lambda>key w'. set_key key (f (get_key key w')) w') indicatorKeys w"

definition sum_correction :: "weights \<Rightarrow> weights" where
  "sum_correction w =
     (let sumCorrection = TARGET_TOTAL_WEIGHT - values_total w
      in if sumCorrection \<noteq> 0
         then (let keyToAdjust = indicatorKeys ! 0
               in set_key keyToAdjust (get_key keyToAdjust w + sumCorrection) w)
         else w)"

definition accuracy_of :: "nat \<Rightarrow> nat \<Rightarrow> accuracy" where
  "accuracy_of hits totalTrades =
     (if totalTrades > 0 then Pct (toFixed 1 ((real hits / real totalTrades) * 100))
      else Pct 0)"

definition calculate_and_adjust_weights :: "candle list \<Rightarrow> weights \<Rightarrow> learning_outcome" where
  "calculate_and_adjust_weights data initialWeights =
     (if length data < LOOKBACK_PERIOD
      then \<lparr>newWeights = initialWeights, accuracy = NA\<rparr>
      else
        (case learn_loop adjust_weights data 0 initialWeights 0 of
           (adjustedWeights, hits, totalTrades) \<Rightarrow>
             (let currentTotal = values_total adjustedWeights;
                  normalizationFactor = TARGET_TOTAL_WEIGHT / currentTotal;
                  scaled = map_keys (\<lambda>v. Math_round (v * normalizationFactor)) adjustedWeights
              in \<lparr>newWeights = sum_correction scaled,
                  accuracy = accuracy_of hits totalTrades\<rparr>)))"

text \<open>
  The earlier revision: the guard is \<open>LEARNING_TRADE_COUNT + LOOKAHEAD_CANDLES\<close> and
  there is no remainder correction.
\<close>

definition calculate_and_adjust_weights_v1 ::
  "candle list \<Rightarrow> weights \<Rightarrow> learning_outcome" where
  "calculate_and_adjust_weights_v1 data initialWeights =
     (if length data < LEARNING_TRADE_COUNT + LOOKAHEAD_CANDLES
      then \<lparr>newWeights = initialWeights, accuracy = NA\<rparr>
      else
        (case learn_loop adjust_weights_v1 data 0 initialWeights 0 of
           (adjustedWeights, hits, totalTrades) \<Rightarrow>
             (let currentTotal = values_total adjustedWeights;
                  normalizationFactor = TARGET_TOTAL_WEIGHT / currentTotal
              in \<lparr>newWeights =
                    map_keys (\<lambda>v. Math_round (v * normalizationFactor)) adjustedWeights,
                  accuracy = accuracy_of hits totalTrades\<rparr>)))"

text \<open>The number of trials a pass executes (\<open>totalTrades\<close> after the loop).\<close>

definition trials_executed ::
  "(prediction_result \<Rightarrow> direction \<Rightarrow> weights \<Rightarrow> weights) \<Rightarrow> candle list \<Rightarrow> weights \<Rightarrow> nat" where
  "trials_executed adjust data initialWeights =
     (case learn_loop adjust data 0 initialWeights 0 of
        (adjustedWeights, hits, totalTrades) \<Rightarrow> totalTrades)"

subsection \<open>Weight aggregator\<close>

text \<open>
  \<^verbatim>\<open>parseFloat\<close> of an accuracy string; \<open>None\<close> stands for \<^verbatim>\<open>NaN\<close>, which every
  sum and quotient it enters propagates.
\<close>

definition parseFloat_accuracy :: "accuracy \<Rightarrow> real option" where
  "parseFloat_accuracy a = (case a of NA \<Rightarrow> None | Pct x \<Rightarrow> Some x)"

definition nan_add :: "real option \<Rightarrow> real option \<Rightarrow> real option" where
  "nan_add a b = (case a of None \<Rightarrow> None
                  | Some x \<Rightarrow> (case b of None \<Rightarrow> None | Some y \<Rightarrow> Some (x + y)))"

record aggregate =
  averagedWeights :: weights
  averageAccuracy :: "real option"

text \<open>
  The accumulation loop over the panel; an entry is \<^verbatim>\<open>{weights, accuracy}\<close>, built
  by \<^verbatim>\<open>scanAndReport\<close> from a learner result \<^verbatim>\<open>{newWeights, accuracy}\<close>.
\<close>

fun accumulate ::
  "learning_outcome list \<Rightarrow> real option \<times> weights \<Rightarrow> real option \<times> weights" where
  "accumulate [] st = st"
| "accumulate (r # rest) (totalAccuracy, summed) =
     accumulate rest
       (nan_add totalAccuracy (parseFloat_accuracy (accuracy r)),
        fold (\<lambda>key a. set_key key (get_key key a + get_key key (newWeights r)) a)
          indicatorKeys summed)"

definition averageWeights :: "learning_outcome list \<Rightarrow> aggregate" where
  "averageWeights allLearnedResults =
     (case accumulate allLearnedResults
             (Some 0, \<lparr>OBV = 0, STOCH = 0, OI_PROXY = 0, MACD = 0\<rparr>) of
        (totalAccuracy, summed) \<Rightarrow>
          (let count = real (length allLearnedResults);
               averaged = map_keys (\<lambda>v. Math_round (v / count)) summed;
               currentTotal = values_total averaged;
               normalizationFactor = TARGET_TOTAL_WEIGHT / currentTotal;
               floored = map_keys (\<lambda>v. max 5 (Math_round (v * normalizationFactor))) averaged;
               finalTotal = values_total floored;
               finalNormalizationFactor = TARGET_TOTAL_WEIGHT / finalTotal;
               renormalized =
                 map_keys (\<lambda>v. Math_round (v * finalNormalizationFactor)) floored
           in \<lparr>averagedWeights = sum_correction renormalized,
               averageAccuracy =
                 (if length allLearnedResults = 0 then None
                  else map_option (\<lambda>t. toFixed 1 (t / count)) totalAccuracy)\<rparr>))"

subsection \<open>Per-symbol scan evaluation\<close>

datatype fetch_error = HTTP_Error | Network_Error | Parse_Error

record scan_result =
  result_symbol :: string
  result_score :: real
  result_confidence :: real
  result_prediction :: direction
  result_recentChange :: real
  result_atr :: real
  result_obiPct :: real

text \<open>
  The ATR read at \<open>lastIndex = data.length - 2\<close>, and the volatility ratio built from
  it; a comparison with \<^verbatim>\<open>undefined\<close> is false.
\<close>

definition scan_current_atr :: "candle list \<Rightarrow> real option" where
  "scan_current_atr data = js_index (calculate_atr data 14) (length data - 2)"

definition recentVolatilityRatio :: "candle list \<Rightarrow> real" where
  "recentVolatilityRatio data =
     (let lastIndex = length data - 2;
          current = data ! lastIndex;
          lastCandleBody = \<bar>close current - c_open current\<bar>
      in case scan_current_atr data of
           None \<Rightarrow> 0
         | Some current_atr \<Rightarrow>
             (if current_atr > 1 / 10 ^ 6 then lastCandleBody / current_atr else 0))"

text \<open>
  \<^verbatim>\<open>processSymbolForScan\<close>, with the outcomes of its two fetches as arguments. A
  rejected fetch, and any exception raised in the body, is caught and gives \<^verbatim>\<open>null\<close>.
\<close>

definition processSymbolForScan ::
  "string \<Rightarrow> fetch_error + candle list \<Rightarrow> fetch_error + order_book option \<Rightarrow> weights
     \<Rightarrow> scan_result option" where
  "processSymbolForScan symbol fetchedData fetchedBook optimizedWeights =
     (case fetchedData of
        Inl e \<Rightarrow> None
      | Inr data \<Rightarrow>
          if length data < LOOKBACK_PERIOD - 1 then None
          else
            (case fetchedBook of
               Inl e \<Rightarrow> None
             | Inr orderBook \<Rightarrow>
                 (let obi = calculate_depth_weighted_imbalance orderBook;
                      lastIndex = length data - 2;
                      current = data ! lastIndex;
                      previous = data ! (lastIndex - 1);
                      obv_values = calculate_obv data;
                      macd_hist = calculate_macd data;
                      stoch_k = calculate_stochastic data ! lastIndex;
                      volume_pressure = calculate_volume_pressure current;
                      macd_hist_val = macd_hist ! lastIndex;
                      obv_window = slice obv_values (lastIndex - 20) lastIndex;
                      obv_pct_change = obv_pct_change_of obv_window;
                      recent_price_change =
                        ((close current - close previous) / close previous) * 100;
                      p = generatePrediction obv_pct_change stoch_k macd_hist_val
                            volume_pressure obi optimizedWeights
                  in if confidence p \<ge> 50 \<and> recentVolatilityRatio data > 1 / 2 then
                       (case scan_current_atr data of
                          None \<Rightarrow> None
                        | Some current_atr \<Rightarrow>
                            Some \<lparr>result_symbol = symbol,
                                  result_score = score p,
                                  result_confidence = confidence p,
                                  result_prediction = prediction p,
                                  result_recentChange = toFixed 2 recent_price_change,
                                  result_atr = toFixed 4 current_atr,
                                  result_obiPct = toFixed 1 obi\<rparr>)
                     else None)))"

subsection \<open>Concrete inputs used in the examples\<close>

definition example_candle :: candle where
  "example_candle =
     \<lparr>time = 0, c_open = 100, high = 100, low = 100, close = 100, volume = 1\<rparr>"

section \<open>Verified properties\<close>

subsection \<open>Auxiliary facts\<close>

lemma length_atr_loop: "length (atr_loop w c ts) = length ts"
  by (induction ts arbitrary: c) (simp_all add: Let_def)

lemma length_trueRanges: "length (trueRanges data) = length data - 1"
  by (simp add: trueRanges_def)

lemma length_atr_values_of:
  "length (atr_values_of trs window) = (if trs = [] then 0 else 1 + (length trs - window))"
  by (simp add: atr_values_of_def Let_def length_atr_loop)

lemma length_calculate_atr_14:
  "length (calculate_atr data 14) =
     (if length data \<le> 1 then length data
      else if length data \<le> 15 then 2 else length data - 13)"
proof (cases "length data \<le> 1")
  case True
  then have "trueRanges data = []" by (simp add: trueRanges_def)
  with True show ?thesis
    by (simp add: calculate_atr_def Let_def atr_values_of_def)
next
  case False
  then have "trueRanges data \<noteq> []"
    using length_trueRanges [of data] by auto
  with False show ?thesis
    by (auto simp: calculate_atr_def Let_def length_atr_values_of length_trueRanges)
qed

lemma weighted_reduce_sum:
  "weighted_reduce limit xs k acc =
     acc + (\<Sum>i<length xs. snd (xs ! i) * (limit - real (k + i)))"
proof (induction xs arbitrary: k acc)
  case Nil
  then show ?case by simp
next
  case (Cons x xs)
  obtain price qty where x: "x = (price, qty)" by (cases x)
  have "(\<Sum>i<length (x # xs). snd ((x # xs) ! i) * (limit - real (k + i)))
        = qty * (limit - real k)
          + (\<Sum>i<length xs. snd (xs ! i) * (limit - real (Suc k + i)))"
    by (simp add: x sum.lessThan_Suc_shift add.commute add.left_commute
        del: sum.lessThan_Suc)
  then show ?case
    by (simp add: x Cons.IH)
qed

lemma direction_of_cond:
  "((if c then UP else DOWN) = UP) = c" "((if c then UP else DOWN) = DOWN) = (\<not> c)"
  by simp_all

text \<open>
  C2. The claim: \<^verbatim>\<open>calculate_atr\<close> with window 14 returns as many values as there
  are candles, the first computed value being the average of the first 14 true ranges,
  the later ones following Wilder's smoothing, the front padded with the first value.
  What the code returns: the first value once as padding, then the first value, then
  the smoothed values; for 15 or more candles that is 13 values fewer than candles
  (two values for 2 to 15 candles).
\<close>

theorem calculate_atr_shape:
  "length (calculate_atr data 14) =
     (if length data \<le> 1 then length data
      else if length data \<le> 15 then 2 else length data - 13)
   \<and> calculate_atr data 14 =
     (if length data = 0 then []
      else if length data = 1 then [0]
      else (let first = reduce_sum (take 14 (trueRanges data)) / 14
            in first # first # atr_loop 14 first (drop 14 (trueRanges data))))"
proof -
  have "calculate_atr data 14 =
     (if length data = 0 then []
      else if length data = 1 then [0]
      else (let first = reduce_sum (take 14 (trueRanges data)) / 14
            in first # first # atr_loop 14 first (drop 14 (trueRanges data))))"
  proof (cases "length data \<le> 1")
    case True
    then have "trueRanges data = []" by (simp add: trueRanges_def)
    with True show ?thesis
      by (auto simp: calculate_atr_def Let_def atr_values_of_def le_Suc_eq)
  next
    case False
    then have "trueRanges data \<noteq> []"
      using length_trueRanges [of data] by auto
    with False show ?thesis
      by (auto simp: calculate_atr_def Let_def atr_values_of_def slice_def length_trueRanges)
  qed
  then show ?thesis using length_calculate_atr_14 [of data] by blast
qed

text \<open>
  C3. For a candle sequence of length 199 or 200 the index \<open>length - 2\<close> read by the
  per-symbol scan is past the end of the array \<^verbatim>\<open>calculate_atr\<close> returns, so the
  ATR read is absent, the volatility ratio is 0, the volatility gate cannot pass and
  \<^verbatim>\<open>processSymbolForScan\<close> returns \<^verbatim>\<open>null\<close> whatever the order book and the weights.
\<close>

theorem scan_atr_lookup_absent:
  assumes "length data = 199 \<or> length data = 200"
  shows "length (calculate_atr data 14) \<le> length data - 2
         \<and> scan_current_atr data = None
         \<and> recentVolatilityRatio data = 0
         \<and> processSymbolForScan symbol (Inr data) fetchedBook optimizedWeights = None"
proof -
  from assms have len: "length (calculate_atr data 14) = length data - 13"
    using length_calculate_atr_14 [of data] by auto
  from assms len have a: "length (calculate_atr data 14) \<le> length data - 2" by auto
  then have b: "scan_current_atr data = None"
    by (simp add: scan_current_atr_def js_index_def)
  then have c: "recentVolatilityRatio data = 0"
    by (simp add: recentVolatilityRatio_def Let_def)
  have d: "processSymbolForScan symbol (Inr data) fetchedBook optimizedWeights = None"
    by (simp add: processSymbolForScan_def Let_def c split: sum.splits)
  from a b c d show ?thesis by blast
qed

theorem scan_atr_lookup_absent_witness:
  "length (replicate 199 example_candle) = 199
   \<and> scan_current_atr (replicate 199 example_candle) = None
   \<and> recentVolatilityRatio (replicate 199 example_candle) = 0
   \<and> processSymbolForScan ''BTCUSDT'' (Inr (replicate 199 example_candle))
        (Inr None) CURRENT_WEIGHTS = None"
  using scan_atr_lookup_absent [of "replicate 199 example_candle" "''BTCUSDT''" "Inr None" CURRENT_WEIGHTS]
  by simp

text \<open>
  C4. The claim as stated (the imbalance is 50 also when the book or one of its sides
  is absent) fails: for an absent book the function returns 0.
\<close>

theorem imbalance_absent_book_counterexample:
  "calculate_depth_weighted_imbalance None \<noteq> 50"
  by (simp add: calculate_depth_weighted_imbalance_def)

text \<open>
  C4, amended. The imbalance is 0 when the book, its bids or its asks are absent.
  Otherwise each level's size is weighted by the number of bid levels minus the
  level's index on both sides; the result is 50 when the total weighted volume is below
  \<open>10\<^sup>-\<^sup>6\<close> and weighted-bid / (weighted-bid + weighted-ask) * 100 otherwise. The book with
  bid sizes 10, 5 and ask sizes 10, 5 gives 50.
\<close>

theorem depth_weighted_imbalance_cases:
  "calculate_depth_weighted_imbalance None = 0
   \<and> calculate_depth_weighted_imbalance (Some \<lparr>bids = None, asks = a\<rparr>) = 0
   \<and> calculate_depth_weighted_imbalance (Some \<lparr>bids = b, asks = None\<rparr>) = 0
   \<and> calculate_depth_weighted_imbalance (Some \<lparr>bids = Some bs, asks = Some as\<rparr>) =
       (let wb = (\<Sum>i<length bs. snd (bs ! i) * (real (length bs) - real i));
            wa = (\<Sum>i<length as. snd (as ! i) * (real (length bs) - real i))
        in if wb + wa < 1 / 10 ^ 6 then 50 else wb / (wb + wa) * 100)
   \<and> calculate_depth_weighted_imbalance
         (Some \<lparr>bids = Some [(p1, 10), (p2, 5)], asks = Some [(p3, 10), (p4, 5)]\<rparr>) = 50"
  by (simp add: calculate_depth_weighted_imbalance_def Let_def weighted_reduce_sum
      split: option.splits)

text \<open>
  C9. With OBV change 2, Stochastic 10, MACD histogram 0.01, volume pressure 60,
  order-book imbalance 70 and the default weights, the prediction has net score 100,
  direction UP and confidence 100.
\<close>

theorem generatePrediction_reference_example:
  "score (generatePrediction 2 10 (1 / 100) 60 70 CURRENT_WEIGHTS) = 100 \<and>
   prediction (generatePrediction 2 10 (1 / 100) 60 70 CURRENT_WEIGHTS) = UP \<and>
   confidence (generatePrediction 2 10 (1 / 100) 60 70 CURRENT_WEIGHTS) = 100"
  by (simp add: generatePrediction_def CURRENT_WEIGHTS_def OBI_WEIGHT_def)

text \<open>
  C10. For every input the net score is the sum of the five signed contributions, the
  direction is UP exactly when the net score is at least 0 (so a net score of 0 gives
  UP) and DOWN otherwise, and the confidence is the smaller of 100 and the absolute
  net score.
\<close>

theorem generatePrediction_score_direction_confidence:
  "(let r = generatePrediction obvPctChange stochK macdHist volumePressure obiPct w
    in score r = OBV (componentScores r) + STOCH (componentScores r)
           + OI_PROXY (componentScores r) + MACD (componentScores r)
           + OBI (componentScores r)
       \<and> (prediction r = UP) = (score r \<ge> 0)
       \<and> (prediction r = DOWN) = (score r < 0)
       \<and> confidence r = min 100 \<bar>score r\<bar>)"
  unfolding generatePrediction_def Let_def
  by (simp add: direction_of_cond not_le split del: if_split)

theorem generatePrediction_zero_score_witness:
  "(let r = generatePrediction 0 50 0 0 50 CURRENT_WEIGHTS
    in score r = 0 \<and> prediction r = UP \<and> confidence r = 0)"
proof -
  have s: "score (generatePrediction 0 50 0 0 50 CURRENT_WEIGHTS) = 0"
    by (simp add: generatePrediction_def CURRENT_WEIGHTS_def OBI_WEIGHT_def)
  from generatePrediction_score_direction_confidence [of 0 50 0 0 50 CURRENT_WEIGHTS]
  show ?thesis unfolding Let_def s by simp
qed

end
